theory Spec2Isabelle
  imports Complex_Main "HOL-Library.Word"
begin

unbundle bit_operations_syntax

section \<open>Machine types\<close>

text \<open>
  The library targets x86-64 with SSE: \<open>size_t\<close> and \<open>uintptr_t\<close> are 64-bit unsigned,
  \<open>int\<close> and \<open>int32_t\<close> are 32-bit two's complement, \<open>float\<close> is an IEEE-754 binary32
  value, kept here as its 32-bit pattern.  A hardware register \<open>__m128i\<close> or \<open>__m128\<close>
  is a 128-bit word; lane \<open>j\<close> occupies bits \<open>32 * j\<close> to \<open>32 * j + 31\<close>.
\<close>

type_synonym int32_t = "32 word"
type_synonym float32 = "32 word"
type_synonym size_t = "64 word"
type_synonym uintptr_t = "64 word"
type_synonym m128i = "128 word"
type_synonym m128 = "128 word"

definition lane32 :: "128 word \<Rightarrow> nat \<Rightarrow> 32 word" where
  "lane32 v j = ucast (drop_bit (32 * j) v)"

section \<open>IEEE-754 binary32 values\<close>

definition fp_sign :: "float32 \<Rightarrow> bool" where
  "fp_sign w = bit w 31"

definition fp_exponent :: "float32 \<Rightarrow> nat" where
  "fp_exponent w = unat (take_bit 8 (drop_bit 23 w))"

definition fp_fraction :: "float32 \<Rightarrow> nat" where
  "fp_fraction w = unat (take_bit 23 w)"

definition is_nan :: "float32 \<Rightarrow> bool" where
  "is_nan w = (fp_exponent w = 255 \<and> fp_fraction w \<noteq> 0)"

text \<open>The number a bit pattern stands for: not a number, an infinity (\<open>True\<close> for the
  negative one) or a finite rational (both zeros are the rational 0).\<close>

datatype fp_value = FNaN | FInf bool | FFinite rat

definition fp_decode :: "float32 \<Rightarrow> fp_value" where
  "fp_decode w =
     (if fp_exponent w = 255 then (if fp_fraction w = 0 then FInf (fp_sign w) else FNaN)
      else FFinite
        ((if fp_sign w then - 1 else 1) *
         (if fp_exponent w = 0 then of_nat (fp_fraction w) / 2 ^ 149
          else if 150 \<le> fp_exponent w
            then of_nat (2 ^ 23 + fp_fraction w) * 2 ^ (fp_exponent w - 150)
            else of_nat (2 ^ 23 + fp_fraction w) / 2 ^ (150 - fp_exponent w))))"

text \<open>The ordered comparisons of IEEE-754: false as soon as an operand is a NaN.\<close>

fun fv_lt :: "fp_value \<Rightarrow> fp_value \<Rightarrow> bool" where
  "fv_lt FNaN y = False"
| "fv_lt (FInf s) FNaN = False"
| "fv_lt (FInf s) (FInf t) = (s \<and> \<not> t)"
| "fv_lt (FInf s) (FFinite y) = s"
| "fv_lt (FFinite x) FNaN = False"
| "fv_lt (FFinite x) (FInf t) = (\<not> t)"
| "fv_lt (FFinite x) (FFinite y) = (x < y)"

fun fv_eq :: "fp_value \<Rightarrow> fp_value \<Rightarrow> bool" where
  "fv_eq FNaN y = False"
| "fv_eq (FInf s) FNaN = False"
| "fv_eq (FInf s) (FInf t) = (s = t)"
| "fv_eq (FInf s) (FFinite y) = False"
| "fv_eq (FFinite x) FNaN = False"
| "fv_eq (FFinite x) (FInf t) = False"
| "fv_eq (FFinite x) (FFinite y) = (x = y)"

definition fp_lt :: "float32 \<Rightarrow> float32 \<Rightarrow> bool" where
  "fp_lt a b = fv_lt (fp_decode a) (fp_decode b)"

definition fp_gt :: "float32 \<Rightarrow> float32 \<Rightarrow> bool" where
  "fp_gt a b = fv_lt (fp_decode b) (fp_decode a)"

definition fp_eq :: "float32 \<Rightarrow> float32 \<Rightarrow> bool" where
  "fp_eq a b = fv_eq (fp_decode a) (fp_decode b)"

definition fp_le :: "float32 \<Rightarrow> float32 \<Rightarrow> bool" where
  "fp_le a b = (fp_lt a b \<or> fp_eq a b)"

definition fp_ge :: "float32 \<Rightarrow> float32 \<Rightarrow> bool" where
  "fp_ge a b = (fp_gt a b \<or> fp_eq a b)"

text \<open>Conversion of an \<open>unsigned int\<close> to \<open>float\<close>, rounding to the nearest float and
  to the even one at a tie.  \<open>top_bit n\<close> is the index of the highest set bit.\<close>

fun top_bit :: "nat \<Rightarrow> nat" where
  "top_bit n = (if n < 2 then 0 else Suc (top_bit (n div 2)))"

declare top_bit.simps [simp del]

definition round_significand :: "nat \<Rightarrow> nat" where
  "round_significand n =
     (let e = top_bit n in
      if e \<le> 23 then n * 2 ^ (23 - e)
      else
        (let q = n div 2 ^ (e - 23); r = n mod 2 ^ (e - 23); half = 2 ^ (e - 24)
         in if half < r \<or> (r = half \<and> odd q) then q + 1 else q))"

definition float_of_uint32 :: "32 word \<Rightarrow> float32" where
  "float_of_uint32 u =
     (if u = 0 then 0
      else of_nat ((top_bit (unat u) + 127) * 2 ^ 23 + (round_significand (unat u) - 2 ^ 23)))"

section \<open>The SSE intrinsics the library calls\<close>

text \<open>Each definition follows the operation given for the intrinsic in the Intel
  Intrinsics Guide.  The arguments of \<open>_mm_setr_epi32\<close> fill the lanes from lane 0 up.\<close>

definition mm_setr_epi32 :: "int32_t \<Rightarrow> int32_t \<Rightarrow> int32_t \<Rightarrow> int32_t \<Rightarrow> m128i" where
  "mm_setr_epi32 e3 e2 e1 e0 =
     ucast e3 OR push_bit 32 (ucast e2) OR push_bit 64 (ucast e1) OR push_bit 96 (ucast e0)"

definition mm_set1_epi32 :: "int32_t \<Rightarrow> m128i" where
  "mm_set1_epi32 a = mm_setr_epi32 a a a a"

definition mm_storeu_si128 :: "m128i \<Rightarrow> int32_t list" where
  "mm_storeu_si128 a = [lane32 a 0, lane32 a 1, lane32 a 2, lane32 a 3]"

definition lanewise :: "(32 word \<Rightarrow> 32 word \<Rightarrow> 32 word) \<Rightarrow> 128 word \<Rightarrow> 128 word \<Rightarrow> 128 word" where
  "lanewise f a b =
     mm_setr_epi32 (f (lane32 a 0) (lane32 b 0)) (f (lane32 a 1) (lane32 b 1))
                   (f (lane32 a 2) (lane32 b 2)) (f (lane32 a 3) (lane32 b 3))"

definition mask_of :: "bool \<Rightarrow> 32 word" where
  "mask_of c = (if c then 0xFFFFFFFF else 0)"

definition mm_add_epi32 :: "m128i \<Rightarrow> m128i \<Rightarrow> m128i" where
  "mm_add_epi32 a b = lanewise (\<lambda>x y. x + y) a b"

definition mm_sub_epi32 :: "m128i \<Rightarrow> m128i \<Rightarrow> m128i" where
  "mm_sub_epi32 a b = lanewise (\<lambda>x y. x - y) a b"

text \<open>\<open>_mm_mullo_epi32\<close>: the low 32 bits of the signed 64-bit product of each lane pair.\<close>

definition mm_mullo_epi32 :: "m128i \<Rightarrow> m128i \<Rightarrow> m128i" where
  "mm_mullo_epi32 a b = lanewise (\<lambda>x y. ucast ((scast x :: 64 word) * scast y)) a b"

text \<open>\<open>_mm_mul_epu32\<close>: the unsigned 64-bit products of lanes 0 and of lanes 2.\<close>

definition mm_mul_epu32 :: "m128i \<Rightarrow> m128i \<Rightarrow> m128i" where
  "mm_mul_epu32 a b =
     ucast ((ucast (lane32 a 0) :: 64 word) * ucast (lane32 b 0))
     OR push_bit 64 (ucast ((ucast (lane32 a 2) :: 64 word) * ucast (lane32 b 2)))"

text \<open>\<open>_mm_srli_si128\<close>: the whole register shifted right by \<open>imm8\<close> bytes.\<close>

definition mm_srli_si128 :: "m128i \<Rightarrow> nat \<Rightarrow> m128i" where
  "mm_srli_si128 a imm8 = (if 15 < imm8 then 0 else drop_bit (8 * imm8) a)"

definition MM_SHUFFLE :: "nat \<Rightarrow> nat \<Rightarrow> nat \<Rightarrow> nat \<Rightarrow> 8 word" where
  "MM_SHUFFLE fp3 fp2 fp1 fp0 =
     push_bit 6 (of_nat fp3) OR push_bit 4 (of_nat fp2) OR push_bit 2 (of_nat fp1) OR of_nat fp0"

definition mm_shuffle_epi32 :: "m128i \<Rightarrow> 8 word \<Rightarrow> m128i" where
  "mm_shuffle_epi32 a imm8 =
     mm_setr_epi32 (lane32 a (unat (imm8 AND 3)))
                   (lane32 a (unat (drop_bit 2 imm8 AND 3)))
                   (lane32 a (unat (drop_bit 4 imm8 AND 3)))
                   (lane32 a (unat (drop_bit 6 imm8 AND 3)))"

definition mm_unpacklo_epi32 :: "m128i \<Rightarrow> m128i \<Rightarrow> m128i" where
  "mm_unpacklo_epi32 a b = mm_setr_epi32 (lane32 a 0) (lane32 b 0) (lane32 a 1) (lane32 b 1)"

definition mm_and_si128 :: "m128i \<Rightarrow> m128i \<Rightarrow> m128i" where
  "mm_and_si128 a b = a AND b"

definition mm_or_si128 :: "m128i \<Rightarrow> m128i \<Rightarrow> m128i" where
  "mm_or_si128 a b = a OR b"

definition mm_xor_si128 :: "m128i \<Rightarrow> m128i \<Rightarrow> m128i" where
  "mm_xor_si128 a b = a XOR b"

definition mm_cmplt_epi32 :: "m128i \<Rightarrow> m128i \<Rightarrow> m128i" where
  "mm_cmplt_epi32 a b = lanewise (\<lambda>x y. mask_of (x <s y)) a b"

definition mm_cmpgt_epi32 :: "m128i \<Rightarrow> m128i \<Rightarrow> m128i" where
  "mm_cmpgt_epi32 a b = lanewise (\<lambda>x y. mask_of (y <s x)) a b"

definition mm_cmpeq_epi32 :: "m128i \<Rightarrow> m128i \<Rightarrow> m128i" where
  "mm_cmpeq_epi32 a b = lanewise (\<lambda>x y. mask_of (x = y)) a b"

definition mm_setr_ps :: "float32 \<Rightarrow> float32 \<Rightarrow> float32 \<Rightarrow> float32 \<Rightarrow> m128" where
  "mm_setr_ps e3 e2 e1 e0 = mm_setr_epi32 e3 e2 e1 e0"

definition mm_set1_ps :: "float32 \<Rightarrow> m128" where
  "mm_set1_ps a = mm_setr_ps a a a a"

definition mm_storeu_ps :: "m128 \<Rightarrow> float32 list" where
  "mm_storeu_ps a = [lane32 a 0, lane32 a 1, lane32 a 2, lane32 a 3]"

definition mm_xor_ps :: "m128 \<Rightarrow> m128 \<Rightarrow> m128" where
  "mm_xor_ps a b = a XOR b"

definition mm_cmplt_ps :: "m128 \<Rightarrow> m128 \<Rightarrow> m128" where
  "mm_cmplt_ps a b = lanewise (\<lambda>x y. mask_of (fp_lt x y)) a b"

definition mm_cmpgt_ps :: "m128 \<Rightarrow> m128 \<Rightarrow> m128" where
  "mm_cmpgt_ps a b = lanewise (\<lambda>x y. mask_of (fp_gt x y)) a b"

definition mm_cmpeq_ps :: "m128 \<Rightarrow> m128 \<Rightarrow> m128" where
  "mm_cmpeq_ps a b = lanewise (\<lambda>x y. mask_of (fp_eq x y)) a b"

definition mm_cmpneq_ps :: "m128 \<Rightarrow> m128 \<Rightarrow> m128" where
  "mm_cmpneq_ps a b = lanewise (\<lambda>x y. mask_of (\<not> fp_eq x y)) a b"

definition mm_cmpngt_ps :: "m128 \<Rightarrow> m128 \<Rightarrow> m128" where
  "mm_cmpngt_ps a b = lanewise (\<lambda>x y. mask_of (\<not> fp_gt x y)) a b"

definition mm_cmpnlt_ps :: "m128 \<Rightarrow> m128 \<Rightarrow> m128" where
  "mm_cmpnlt_ps a b = lanewise (\<lambda>x y. mask_of (\<not> fp_lt x y)) a b"

section \<open>Vect128i\<close>

text \<open>The class has the single field \<open>val\<close>; the constructor from a native register
  is the datatype constructor.\<close>

datatype Vect128i = Vect128i (ival: m128i)

definition Vect128i_set1 :: "int32_t \<Rightarrow> Vect128i" where
  "Vect128i_set1 i = Vect128i (mm_set1_epi32 i)"

definition Vect128i_setr :: "int32_t \<Rightarrow> int32_t \<Rightarrow> int32_t \<Rightarrow> int32_t \<Rightarrow> Vect128i" where
  "Vect128i_setr i0 i1 i2 i3 = Vect128i (mm_setr_epi32 i0 i1 i2 i3)"

text \<open>\<open>storeu\<close> writes the register to four consecutive \<open>int32_t\<close>; the result is the
  array written.\<close>

definition Vect128i_storeu :: "Vect128i \<Rightarrow> int32_t list" where
  "Vect128i_storeu v = mm_storeu_si128 (ival v)"

text \<open>\<open>operator[]\<close> stores to a local array of four and reads \<open>array[idx]\<close>, with no
  bounds check: an index of 4 or more reads outside the array, which is \<open>None\<close> here.\<close>

definition Vect128i_index :: "Vect128i \<Rightarrow> nat \<Rightarrow> int32_t option" where
  "Vect128i_index v idx =
     (let array = Vect128i_storeu v in if idx < 4 then Some (array ! idx) else None)"

definition Vect128i_xor :: "Vect128i \<Rightarrow> Vect128i \<Rightarrow> Vect128i" where
  "Vect128i_xor a v = Vect128i (mm_xor_si128 (ival a) (ival v))"

definition Vect128i_and :: "Vect128i \<Rightarrow> Vect128i \<Rightarrow> Vect128i" where
  "Vect128i_and a v = Vect128i (mm_and_si128 (ival a) (ival v))"

definition Vect128i_or :: "Vect128i \<Rightarrow> Vect128i \<Rightarrow> Vect128i" where
  "Vect128i_or a v = Vect128i (mm_or_si128 (ival a) (ival v))"

text \<open>\<open>operator~\<close>: the literal \<open>0xFFFFFFFF\<close> converts to the \<open>int32_t\<close> of the same bits.\<close>

definition Vect128i_not :: "Vect128i \<Rightarrow> Vect128i" where
  "Vect128i_not a = Vect128i_xor a (Vect128i_set1 0xFFFFFFFF)"

definition Vect128i_add :: "Vect128i \<Rightarrow> Vect128i \<Rightarrow> Vect128i" where
  "Vect128i_add a v = Vect128i (mm_add_epi32 (ival a) (ival v))"

definition Vect128i_sub :: "Vect128i \<Rightarrow> Vect128i \<Rightarrow> Vect128i" where
  "Vect128i_sub a v = Vect128i (mm_sub_epi32 (ival a) (ival v))"

text \<open>\<open>operator*\<close>: the build flag \<open>HAVE_SSE41\<close> selects the branch.\<close>

definition Vect128i_mul :: "bool \<Rightarrow> Vect128i \<Rightarrow> Vect128i \<Rightarrow> Vect128i" where
  "Vect128i_mul HAVE_SSE41 a v =
     (if HAVE_SSE41 then Vect128i (mm_mullo_epi32 (ival a) (ival v))
      else
        (let t1 = mm_mul_epu32 (ival a) (ival v);
             t2 = mm_mul_epu32 (mm_srli_si128 (ival a) 4) (mm_srli_si128 (ival v) 4)
         in Vect128i (mm_unpacklo_epi32
                        (mm_shuffle_epi32 t1 (MM_SHUFFLE 0 0 2 0))
                        (mm_shuffle_epi32 t2 (MM_SHUFFLE 0 0 2 0)))))"

definition Vect128i_lt :: "Vect128i \<Rightarrow> Vect128i \<Rightarrow> Vect128i" where
  "Vect128i_lt a v = Vect128i (mm_cmplt_epi32 (ival a) (ival v))"

definition Vect128i_gt :: "Vect128i \<Rightarrow> Vect128i \<Rightarrow> Vect128i" where
  "Vect128i_gt a v = Vect128i (mm_cmpgt_epi32 (ival a) (ival v))"

definition Vect128i_eq :: "Vect128i \<Rightarrow> Vect128i \<Rightarrow> Vect128i" where
  "Vect128i_eq a v = Vect128i (mm_cmpeq_epi32 (ival a) (ival v))"

definition Vect128i_le :: "Vect128i \<Rightarrow> Vect128i \<Rightarrow> Vect128i" where
  "Vect128i_le a v = Vect128i_not (Vect128i_gt a v)"

definition Vect128i_ge :: "Vect128i \<Rightarrow> Vect128i \<Rightarrow> Vect128i" where
  "Vect128i_ge a v = Vect128i_not (Vect128i_lt a v)"

definition Vect128i_ne :: "Vect128i \<Rightarrow> Vect128i \<Rightarrow> Vect128i" where
  "Vect128i_ne a v = Vect128i_not (Vect128i_eq a v)"

section \<open>Vect128f\<close>

datatype Vect128f = Vect128f (fval: m128)

definition Vect128f_set1 :: "float32 \<Rightarrow> Vect128f" where
  "Vect128f_set1 i = Vect128f (mm_set1_ps i)"

definition Vect128f_setr :: "float32 \<Rightarrow> float32 \<Rightarrow> float32 \<Rightarrow> float32 \<Rightarrow> Vect128f" where
  "Vect128f_setr i0 i1 i2 i3 = Vect128f (mm_setr_ps i0 i1 i2 i3)"

definition Vect128f_storeu :: "Vect128f \<Rightarrow> float32 list" where
  "Vect128f_storeu v = mm_storeu_ps (fval v)"

definition Vect128f_index :: "Vect128f \<Rightarrow> nat \<Rightarrow> float32 option" where
  "Vect128f_index v idx =
     (let array = Vect128f_storeu v in if idx < 4 then Some (array ! idx) else None)"

definition Vect128f_xor :: "Vect128f \<Rightarrow> Vect128f \<Rightarrow> Vect128f" where
  "Vect128f_xor a v = Vect128f (mm_xor_ps (fval a) (fval v))"

text \<open>\<open>operator~\<close> calls the constructor \<open>Vect128f(float)\<close> on the literal \<open>0xFFFFFFFF\<close>,
  an \<open>unsigned int\<close>, which is converted to \<open>float\<close> by value.\<close>

definition Vect128f_not :: "Vect128f \<Rightarrow> Vect128f" where
  "Vect128f_not a = Vect128f_xor a (Vect128f_set1 (float_of_uint32 0xFFFFFFFF))"

definition Vect128f_lt :: "Vect128f \<Rightarrow> Vect128f \<Rightarrow> Vect128f" where
  "Vect128f_lt a v = Vect128f (mm_cmplt_ps (fval a) (fval v))"

definition Vect128f_le :: "Vect128f \<Rightarrow> Vect128f \<Rightarrow> Vect128f" where
  "Vect128f_le a v = Vect128f (mm_cmpngt_ps (fval a) (fval v))"

definition Vect128f_gt :: "Vect128f \<Rightarrow> Vect128f \<Rightarrow> Vect128f" where
  "Vect128f_gt a v = Vect128f (mm_cmpgt_ps (fval a) (fval v))"

definition Vect128f_ge :: "Vect128f \<Rightarrow> Vect128f \<Rightarrow> Vect128f" where
  "Vect128f_ge a v = Vect128f (mm_cmpnlt_ps (fval a) (fval v))"

definition Vect128f_eq :: "Vect128f \<Rightarrow> Vect128f \<Rightarrow> Vect128f" where
  "Vect128f_eq a v = Vect128f (mm_cmpeq_ps (fval a) (fval v))"

definition Vect128f_ne :: "Vect128f \<Rightarrow> Vect128f \<Rightarrow> Vect128f" where
  "Vect128f_ne a v = Vect128f (mm_cmpneq_ps (fval a) (fval v))"

section \<open>AlignedStorage\<close>

text \<open>
  The template parameters are \<open>sizeofT\<close>, the size of the element type in bytes, and
  \<open>Align\<close>, an \<open>int\<close>.  The allocator is a parameter: \<open>malloc n\<close> is the address it
  returns for a request of \<open>n\<close> bytes, 0 for the null pointer.  The fields are the ones
  of the class; \<open>raw\<close> owns the address kept in \<open>raw_val\<close>.
\<close>

record AlignedStorage =
  length_elems :: size_t
  raw_val :: uintptr_t
  aligned :: uintptr_t

text \<open>The byte count handed to \<open>malloc\<close>, computed in \<open>size_t\<close>.\<close>

definition alloc_bytes :: "nat \<Rightarrow> int \<Rightarrow> size_t \<Rightarrow> size_t" where
  "alloc_bytes sizeofT Align len = (len * of_nat sizeofT) + word_of_int Align"

definition AlignedStorage_new ::
  "(size_t \<Rightarrow> uintptr_t) \<Rightarrow> nat \<Rightarrow> int \<Rightarrow> size_t \<Rightarrow> AlignedStorage" where
  "AlignedStorage_new malloc sizeofT Align len =
     (let raw = malloc (alloc_bytes sizeofT Align len)
      in \<lparr>length_elems = len, raw_val = raw,
          aligned = raw + (word_of_int Align - (raw mod word_of_int Align))\<rparr>)"

text \<open>The conversion to a raw pointer.\<close>

definition AlignedStorage_ptr :: "AlignedStorage \<Rightarrow> uintptr_t" where
  "AlignedStorage_ptr s = aligned s"

text \<open>\<open>operator+\<close>, \<open>operator-\<close> and \<open>operator[]\<close> take an \<open>int\<close> and do pointer
  arithmetic on \<open>T*\<close>; \<open>operator[]\<close> yields the address of the element it refers to.\<close>

definition AlignedStorage_plus :: "nat \<Rightarrow> AlignedStorage \<Rightarrow> 32 word \<Rightarrow> uintptr_t" where
  "AlignedStorage_plus sizeofT s i = aligned s + scast i * of_nat sizeofT"

definition AlignedStorage_minus :: "nat \<Rightarrow> AlignedStorage \<Rightarrow> 32 word \<Rightarrow> uintptr_t" where
  "AlignedStorage_minus sizeofT s i = aligned s - scast i * of_nat sizeofT"

definition AlignedStorage_index :: "nat \<Rightarrow> AlignedStorage \<Rightarrow> 32 word \<Rightarrow> uintptr_t" where
  "AlignedStorage_index sizeofT s i = aligned s + scast i * of_nat sizeofT"

datatype error = out_of_range string

text \<open>\<open>at\<close> is a member function of the storage: it returns its result together with
  the storage it leaves behind.  In \<open>i >= length\<close> the \<open>int\<close> is converted to \<open>size_t\<close>.\<close>

definition AlignedStorage_at ::
  "nat \<Rightarrow> AlignedStorage \<Rightarrow> 32 word \<Rightarrow> (error + uintptr_t) \<times> AlignedStorage" where
  "AlignedStorage_at sizeofT s i =
     (if i <s 0 \<or> length_elems s \<le> scast i
      then (Inl (out_of_range ''outside of aligned storage boundary''), s)
      else (Inr (aligned s + scast i * of_nat sizeofT), s))"

section \<open>Lanes of the intrinsics\<close>

lemma lane32_setr_0: "lane32 (mm_setr_epi32 a b c d) 0 = a"
  unfolding lane32_def mm_setr_epi32_def
  by (rule bit_word_eqI) (auto simp add: bit_simps)

lemma lane32_setr_1: "lane32 (mm_setr_epi32 a b c d) 1 = b"
  unfolding lane32_def mm_setr_epi32_def
  by (rule bit_word_eqI) (auto simp add: bit_simps dest: bit_imp_le_length)

lemma lane32_setr_2: "lane32 (mm_setr_epi32 a b c d) 2 = c"
  unfolding lane32_def mm_setr_epi32_def
  by (rule bit_word_eqI) (auto simp add: bit_simps dest: bit_imp_le_length)

lemma lane32_setr_3: "lane32 (mm_setr_epi32 a b c d) 3 = d"
  unfolding lane32_def mm_setr_epi32_def
  by (rule bit_word_eqI) (auto simp add: bit_simps dest: bit_imp_le_length)

lemma lane32_setr_Suc0: "lane32 (mm_setr_epi32 a b c d) (Suc 0) = b"
  using lane32_setr_1 by simp

lemmas lane32_setr =
  lane32_setr_0 lane32_setr_1 lane32_setr_Suc0 lane32_setr_2 lane32_setr_3

lemma lt4_cases: "k < 4 \<Longrightarrow> k = 0 \<or> k = 1 \<or> k = 2 \<or> k = (3::nat)"
  by arith

lemma lane32_setr_nth:
  "k < 4 \<Longrightarrow> lane32 (mm_setr_epi32 a b c d) k = [a, b, c, d] ! k"
  using lt4_cases [of k] by (auto simp add: lane32_setr)

lemma lane32_lanewise:
  "k < 4 \<Longrightarrow> lane32 (lanewise f a b) k = f (lane32 a k) (lane32 b k)"
  unfolding lanewise_def using lt4_cases [of k] by (auto simp add: lane32_setr)

lemma lane32_xor: "lane32 (a XOR b) j = lane32 a j XOR lane32 b j"
  unfolding lane32_def
  by (rule bit_word_eqI) (auto simp add: bit_simps)

lemma storeu_si128_nth: "k < 4 \<Longrightarrow> mm_storeu_si128 a ! k = lane32 a k"
  unfolding mm_storeu_si128_def using lt4_cases [of k] by auto

lemma storeu_ps_nth: "k < 4 \<Longrightarrow> mm_storeu_ps a ! k = lane32 a k"
  unfolding mm_storeu_ps_def using lt4_cases [of k] by auto

lemma Vect128i_index_lane:
  "k < 4 \<Longrightarrow> Vect128i_index v k = Some (lane32 (ival v) k)"
  by (simp add: Vect128i_index_def Vect128i_storeu_def storeu_si128_nth)

lemma Vect128f_index_lane:
  "k < 4 \<Longrightarrow> Vect128f_index v k = Some (lane32 (fval v) k)"
  by (simp add: Vect128f_index_def Vect128f_storeu_def storeu_ps_nth)

lemma ucast_word_of_int_down:
  "(ucast (word_of_int k :: 64 word) :: 32 word) = word_of_int k"
  by (rule bit_word_eqI) (auto simp add: bit_simps)

lemma ucast_mul_down:
  "(ucast ((ucast (a::32 word) :: 64 word) * ucast (b::32 word)) :: 32 word) = a * b"
proof -
  have "(ucast a :: 64 word) * ucast b = word_of_int (uint a * uint b)"
    by (simp only: ucast_eq wi_hom_mult)
  then have "(ucast ((ucast a :: 64 word) * ucast b) :: 32 word) = word_of_int (uint a * uint b)"
    by (simp only: ucast_word_of_int_down)
  also have "\<dots> = word_of_int (uint a) * word_of_int (uint b)"
    by (simp only: wi_hom_mult)
  finally show ?thesis by simp
qed

lemma scast_mul_down:
  "(ucast ((scast (a::32 word) :: 64 word) * scast (b::32 word)) :: 32 word) = a * b"
proof -
  have "(scast a :: 64 word) * scast b = word_of_int (sint a * sint b)"
    by (simp only: scast_eq wi_hom_mult)
  then have "(ucast ((scast a :: 64 word) * scast b) :: 32 word) = word_of_int (sint a * sint b)"
    by (simp only: ucast_word_of_int_down)
  also have "\<dots> = word_of_int (sint a) * word_of_int (sint b)"
    by (simp only: wi_hom_mult)
  finally show ?thesis by simp
qed

lemma lane32_mul_epu32_0: "lane32 (mm_mul_epu32 a b) 0 = lane32 a 0 * lane32 b 0"
proof -
  have "lane32 (ucast (p :: 64 word) OR push_bit 64 (ucast (q :: 64 word))) 0 = ucast p"
    for p q
    unfolding lane32_def by (rule bit_word_eqI) (auto simp add: bit_simps)
  then show ?thesis by (simp only: mm_mul_epu32_def ucast_mul_down)
qed

lemma lane32_mul_epu32_2: "lane32 (mm_mul_epu32 a b) 2 = lane32 a 2 * lane32 b 2"
proof -
  have "lane32 (ucast (p :: 64 word) OR push_bit 64 (ucast (q :: 64 word))) 2 = ucast q"
    for p q
    unfolding lane32_def
    by (rule bit_word_eqI) (auto simp add: bit_simps dest: bit_imp_le_length)
  then show ?thesis by (simp only: mm_mul_epu32_def ucast_mul_down)
qed

lemma lane32_srli_4:
  "lane32 (mm_srli_si128 a 4) j = (if j < 3 then lane32 a (Suc j) else 0)"
  unfolding lane32_def mm_srli_si128_def
  by (rule bit_word_eqI) (auto simp add: bit_simps ac_simps dest: bit_imp_le_length)

lemma MM_SHUFFLE_0020: "MM_SHUFFLE 0 0 2 0 = 8"
  by (simp add: MM_SHUFFLE_def)

lemma shuffle_epi32_8:
  "mm_shuffle_epi32 a 8 = mm_setr_epi32 (lane32 a 0) (lane32 a 2) (lane32 a 0) (lane32 a 0)"
  by (simp add: mm_shuffle_epi32_def)

lemma mul_fallback_lanes:
  "ival (Vect128i_mul False a v) =
     mm_setr_epi32 (lane32 (ival a) 0 * lane32 (ival v) 0) (lane32 (ival a) 1 * lane32 (ival v) 1)
                   (lane32 (ival a) 2 * lane32 (ival v) 2) (lane32 (ival a) 3 * lane32 (ival v) 3)"
  by (simp add: Vect128i_mul_def Let_def MM_SHUFFLE_0020 shuffle_epi32_8 mm_unpacklo_epi32_def
      lane32_setr lane32_mul_epu32_0 lane32_mul_epu32_2 lane32_srli_4)

lemma mul_native_lanes:
  "ival (Vect128i_mul True a v) =
     mm_setr_epi32 (lane32 (ival a) 0 * lane32 (ival v) 0) (lane32 (ival a) 1 * lane32 (ival v) 1)
                   (lane32 (ival a) 2 * lane32 (ival v) 2) (lane32 (ival a) 3 * lane32 (ival v) 3)"
  by (simp add: Vect128i_mul_def mm_mullo_epi32_def lanewise_def scast_mul_down)

section \<open>Float values and comparisons\<close>

lemma top_bit_max: "top_bit 4294967295 = 31"
  by (simp add: top_bit.simps)

lemma float_of_uint32_max: "float_of_uint32 0xFFFFFFFF = 0x4F800000"
  by (simp add: float_of_uint32_def round_significand_def top_bit_max Let_def)

lemma float_of_uint32_int_max: "float_of_uint32 2147483647 = 0x4F000000"
  by (simp add: float_of_uint32_def round_significand_def top_bit.simps Let_def)

lemma float_of_uint32_1: "float_of_uint32 1 = 0x3F800000"
  by (simp add: float_of_uint32_def round_significand_def top_bit.simps Let_def)

lemma float_of_uint32_23: "float_of_uint32 23 = 0x41B80000"
  by (simp add: float_of_uint32_def round_significand_def top_bit.simps Let_def)

lemma float_of_uint32_tie_down: "float_of_uint32 16777217 = 0x4B800000"
  by (simp add: float_of_uint32_def round_significand_def top_bit.simps Let_def)

lemma float_of_uint32_tie_up: "float_of_uint32 16777219 = 0x4B800002"
  by (simp add: float_of_uint32_def round_significand_def top_bit.simps Let_def)

lemma is_nan_ones: "is_nan 0xFFFFFFFF"
  by (simp add: is_nan_def fp_exponent_def fp_fraction_def)

lemma fp_decode_0: "fp_decode 0 = FFinite 0"
  by (simp add: fp_decode_def fp_exponent_def fp_fraction_def)

lemma fp_decode_one: "fp_decode 0x3F800000 = FFinite 1"
  by (simp add: fp_decode_def fp_exponent_def fp_fraction_def fp_sign_def)

lemma fp_decode_m1: "fp_decode 0xBF800000 = FFinite (- 1)"
  by (simp add: fp_decode_def fp_exponent_def fp_fraction_def fp_sign_def)

lemma fp_decode_2p31: "fp_decode 0x4F000000 = FFinite 2147483648"
  by (simp add: fp_decode_def fp_exponent_def fp_fraction_def fp_sign_def)

lemma fp_decode_2p32: "fp_decode 0x4F800000 = FFinite 4294967296"
  by (simp add: fp_decode_def fp_exponent_def fp_fraction_def fp_sign_def)

lemma fp_decode_1203: "fp_decode 0x3F99FBE7 = FFinite (10091495 / 8388608)"
  by (simp add: fp_decode_def fp_exponent_def fp_fraction_def fp_sign_def)

lemma fp_decode_nan_iff: "fp_decode w = FNaN \<longleftrightarrow> is_nan w"
  by (simp add: fp_decode_def is_nan_def)

lemma fp_eq_refl_iff: "fp_eq w w \<longleftrightarrow> \<not> is_nan w"
  unfolding fp_eq_def using fp_decode_nan_iff [of w]
  by (cases "fp_decode w") auto

lemma fp_gt_nan: "is_nan a \<or> is_nan b \<Longrightarrow> \<not> fp_gt a b"
  unfolding fp_gt_def using fp_decode_nan_iff [of a] fp_decode_nan_iff [of b]
  by (cases "fp_decode a"; cases "fp_decode b") auto

lemma fp_lt_nan: "is_nan a \<or> is_nan b \<Longrightarrow> \<not> fp_lt a b"
  unfolding fp_lt_def using fp_decode_nan_iff [of a] fp_decode_nan_iff [of b]
  by (cases "fp_decode a"; cases "fp_decode b") auto

lemma fp_eq_nan: "is_nan a \<or> is_nan b \<Longrightarrow> \<not> fp_eq a b"
  unfolding fp_eq_def using fp_decode_nan_iff [of a] fp_decode_nan_iff [of b]
  by (cases "fp_decode a"; cases "fp_decode b") auto

lemma fp_not_gt_iff_le: "\<not> is_nan a \<Longrightarrow> \<not> is_nan b \<Longrightarrow> (\<not> fp_gt a b) = fp_le a b"
  unfolding fp_gt_def fp_le_def fp_lt_def fp_eq_def
  using fp_decode_nan_iff [of a] fp_decode_nan_iff [of b]
  by (cases "fp_decode a"; cases "fp_decode b") auto

lemma fp_not_lt_iff_ge: "\<not> is_nan a \<Longrightarrow> \<not> is_nan b \<Longrightarrow> (\<not> fp_lt a b) = fp_ge a b"
  unfolding fp_gt_def fp_ge_def fp_lt_def fp_eq_def
  using fp_decode_nan_iff [of a] fp_decode_nan_iff [of b]
  by (cases "fp_decode a"; cases "fp_decode b") auto

lemma Vect128f_cmp_lanes:
  assumes "k < 4"
  shows "lane32 (fval (Vect128f_lt a b)) k = mask_of (fp_lt (lane32 (fval a) k) (lane32 (fval b) k))"
    and "lane32 (fval (Vect128f_gt a b)) k = mask_of (fp_gt (lane32 (fval a) k) (lane32 (fval b) k))"
    and "lane32 (fval (Vect128f_eq a b)) k = mask_of (fp_eq (lane32 (fval a) k) (lane32 (fval b) k))"
    and "lane32 (fval (Vect128f_ne a b)) k = mask_of (\<not> fp_eq (lane32 (fval a) k) (lane32 (fval b) k))"
    and "lane32 (fval (Vect128f_le a b)) k = mask_of (\<not> fp_gt (lane32 (fval a) k) (lane32 (fval b) k))"
    and "lane32 (fval (Vect128f_ge a b)) k = mask_of (\<not> fp_lt (lane32 (fval a) k) (lane32 (fval b) k))"
  using assms
  by (simp_all add: Vect128f_lt_def Vect128f_gt_def Vect128f_eq_def Vect128f_ne_def
      Vect128f_le_def Vect128f_ge_def mm_cmplt_ps_def mm_cmpgt_ps_def mm_cmpeq_ps_def
      mm_cmpneq_ps_def mm_cmpngt_ps_def mm_cmpnlt_ps_def lane32_lanewise)

lemma Vect128i_cmp_lanes:
  assumes "k < 4"
  shows "lane32 (ival (Vect128i_lt a b)) k = mask_of (sint (lane32 (ival a) k) < sint (lane32 (ival b) k))"
    and "lane32 (ival (Vect128i_gt a b)) k = mask_of (sint (lane32 (ival b) k) < sint (lane32 (ival a) k))"
    and "lane32 (ival (Vect128i_eq a b)) k = mask_of (lane32 (ival a) k = lane32 (ival b) k)"
  using assms
  by (simp_all add: Vect128i_lt_def Vect128i_gt_def Vect128i_eq_def mm_cmplt_epi32_def
      mm_cmpgt_epi32_def mm_cmpeq_epi32_def lane32_lanewise word_sless_alt)

lemma gt_example_lane3:
  "Vect128f_index (Vect128f_gt (Vect128f_setr 0 0x3F800000 0xBF800000 0x4F000000)
                               (Vect128f_setr 0 0 0 0x3F800000)) 3 = Some 0xFFFFFFFF"
  by (simp add: Vect128f_index_lane Vect128f_cmp_lanes Vect128f_setr_def mm_setr_ps_def
      lane32_setr fp_gt_def fp_decode_one fp_decode_2p31 mask_of_def)

lemma gt_example_lane0:
  "Vect128f_index (Vect128f_gt (Vect128f_setr 0 0x3F800000 0xBF800000 0x4F000000)
                               (Vect128f_setr 0 0 0 0x3F800000)) 0 = Some 0"
  by (simp add: Vect128f_index_lane Vect128f_cmp_lanes Vect128f_setr_def mm_setr_ps_def
      lane32_setr fp_gt_def fp_decode_0 mask_of_def)

lemma is_nan_qnan: "is_nan 0x7FC00000"
  by (simp add: is_nan_def fp_exponent_def fp_fraction_def)

lemma Vect128f_not_not: "Vect128f_not (Vect128f_not v) = v"
  by (cases v) (simp add: Vect128f_not_def Vect128f_xor_def mm_xor_ps_def xor.assoc)

lemma not_nan_1203: "\<not> is_nan 0x3F99FBE7"
  by (simp add: is_nan_def fp_exponent_def fp_fraction_def)

lemma set1_1203_lanes: "k < 4 \<Longrightarrow> lane32 (fval (Vect128f_set1 0x3F99FBE7)) k = 0x3F99FBE7"
  using lt4_cases [of k]
  by (auto simp add: Vect128f_set1_def mm_set1_ps_def mm_setr_ps_def lane32_setr)

lemma Vect128f_not_lane:
  "k < 4 \<Longrightarrow> lane32 (fval (Vect128f_not v)) k = lane32 (fval v) k XOR 0x4F800000"
  using lt4_cases [of k]
  by (auto simp add: Vect128f_not_def Vect128f_xor_def mm_xor_ps_def lane32_xor
      Vect128f_set1_def mm_set1_ps_def mm_setr_ps_def lane32_setr float_of_uint32_max)

lemma xor_mask_not_complement: "(x :: 32 word) XOR 0x4F800000 \<noteq> NOT x"
proof
  assume "x XOR 0x4F800000 = NOT x"
  then have "x XOR (x XOR 0x4F800000) = x XOR NOT x" by simp
  then have "(0x4F800000 :: 32 word) = - 1"
    by (simp add: xor.assoc [symmetric])
  then show False by simp
qed

lemma Vect128f_not_never_complement:
  "k < 4 \<Longrightarrow> lane32 (fval (Vect128f_not v)) k \<noteq> NOT (lane32 (fval v) k)"
  by (simp add: Vect128f_not_lane xor_mask_not_complement)

lemma add_example:
  "Vect128i_storeu (Vect128i_add (Vect128i_setr 0 (- 1) 1 2147483647) (Vect128i_setr 1 1 1 1))
     = [1, 0, 2, - 2147483648]"
  by (simp add: Vect128i_storeu_def mm_storeu_si128_def Vect128i_add_def mm_add_epi32_def
      lanewise_def Vect128i_setr_def lane32_setr)

section \<open>Properties of the vector types\<close>

text \<open>
  C1.  Integer comparisons \<open><\<close>, \<open>>\<close>, \<open>==\<close> give in each lane the 32-bit integer -1 when
  the signed comparison of the lanes holds and 0 when it does not.  Every float comparison
  gives in each lane the all-ones pattern, which read as a float is a NaN, when the
  comparison holds, and the pattern of \<open>0.0\<close> when it does not.  For the float lanes
  \<open>(0, 1, -1, 2147483647.0)\<close> and \<open>(0, 0, 0, 1)\<close>, lane 3 of \<open>>\<close> is that NaN and lane 0
  is \<open>0.0\<close>; the float nearest to 2147483647 is \<open>2^31\<close>, the pattern \<open>0x4F000000\<close>.
\<close>

theorem mask_encoding:
  "k < 4 \<Longrightarrow> Vect128i_index a k = Some x \<Longrightarrow> Vect128i_index b k = Some y \<Longrightarrow>
   Vect128f_index fa k = Some p \<Longrightarrow> Vect128f_index fb k = Some q \<Longrightarrow>
   Vect128i_index (Vect128i_lt a b) k = Some (if sint x < sint y then - 1 else 0) \<and>
   Vect128i_index (Vect128i_gt a b) k = Some (if sint y < sint x then - 1 else 0) \<and>
   Vect128i_index (Vect128i_eq a b) k = Some (if x = y then - 1 else 0) \<and>
   sint (- 1 :: 32 word) = - 1 \<and>
   Vect128f_index (Vect128f_lt fa fb) k = Some (if fp_lt p q then 0xFFFFFFFF else 0) \<and>
   Vect128f_index (Vect128f_gt fa fb) k = Some (if fp_gt p q then 0xFFFFFFFF else 0) \<and>
   Vect128f_index (Vect128f_eq fa fb) k = Some (if fp_eq p q then 0xFFFFFFFF else 0) \<and>
   Vect128f_index (Vect128f_ne fa fb) k = Some (if \<not> fp_eq p q then 0xFFFFFFFF else 0) \<and>
   Vect128f_index (Vect128f_le fa fb) k = Some (if \<not> fp_gt p q then 0xFFFFFFFF else 0) \<and>
   Vect128f_index (Vect128f_ge fa fb) k = Some (if \<not> fp_lt p q then 0xFFFFFFFF else 0) \<and>
   is_nan 0xFFFFFFFF \<and> fp_decode 0 = FFinite 0 \<and>
   Vect128f_index (Vect128f_gt (Vect128f_setr 0 0x3F800000 0xBF800000 0x4F000000)
                               (Vect128f_setr 0 0 0 0x3F800000)) 3 = Some 0xFFFFFFFF \<and>
   Vect128f_index (Vect128f_gt (Vect128f_setr 0 0x3F800000 0xBF800000 0x4F000000)
                               (Vect128f_setr 0 0 0 0x3F800000)) 0 = Some 0"
proof -
  assume k: "k < 4"
    and "Vect128i_index a k = Some x" "Vect128i_index b k = Some y"
    and "Vect128f_index fa k = Some p" "Vect128f_index fb k = Some q"
  then have l: "lane32 (ival a) k = x" "lane32 (ival b) k = y"
    "lane32 (fval fa) k = p" "lane32 (fval fb) k = q"
    by (simp_all add: Vect128i_index_lane Vect128f_index_lane)
  have i: "Vect128i_index (Vect128i_lt a b) k = Some (if sint x < sint y then - 1 else 0)"
    "Vect128i_index (Vect128i_gt a b) k = Some (if sint y < sint x then - 1 else 0)"
    "Vect128i_index (Vect128i_eq a b) k = Some (if x = y then - 1 else 0)"
    using k l by (simp_all add: Vect128i_index_lane Vect128i_cmp_lanes mask_of_def)
  have f: "Vect128f_index (Vect128f_lt fa fb) k = Some (if fp_lt p q then 0xFFFFFFFF else 0)"
    "Vect128f_index (Vect128f_gt fa fb) k = Some (if fp_gt p q then 0xFFFFFFFF else 0)"
    "Vect128f_index (Vect128f_eq fa fb) k = Some (if fp_eq p q then 0xFFFFFFFF else 0)"
    "Vect128f_index (Vect128f_ne fa fb) k = Some (if \<not> fp_eq p q then 0xFFFFFFFF else 0)"
    "Vect128f_index (Vect128f_le fa fb) k = Some (if \<not> fp_gt p q then 0xFFFFFFFF else 0)"
    "Vect128f_index (Vect128f_ge fa fb) k = Some (if \<not> fp_lt p q then 0xFFFFFFFF else 0)"
    using k l by (simp_all only: Vect128f_index_lane Vect128f_cmp_lanes mask_of_def)
  have s: "sint (- 1 :: 32 word) = - 1" by simp
  from i f s is_nan_ones fp_decode_0 gt_example_lane3 gt_example_lane0
  show ?thesis by (intro conjI)
qed

theorem mask_encoding_witness:
  "(3::nat) < 4 \<and>
   Vect128i_index (Vect128i_setr 0 1 (- 1) 2147483647) 3 = Some 2147483647 \<and>
   Vect128i_index (Vect128i_set1 0) 3 = Some 0 \<and>
   Vect128f_index (Vect128f_setr 0 0x3F800000 0xBF800000 0x4F000000) 3 = Some 0x4F000000 \<and>
   Vect128f_index (Vect128f_setr 0 0 0 0x3F800000) 3 = Some 0x3F800000 \<and>
   Vect128i_index (Vect128i_gt (Vect128i_setr 0 1 (- 1) 2147483647) (Vect128i_set1 0)) 3
     = Some (- 1) \<and>
   Vect128i_index (Vect128i_lt (Vect128i_setr 0 1 (- 1) 2147483647) (Vect128i_set1 0)) 3
     = Some 0"
proof -
  have k: "(3::nat) < 4" by simp
  have a: "Vect128i_index (Vect128i_setr 0 1 (- 1) 2147483647) 3 = Some 2147483647"
    by (simp add: Vect128i_index_lane Vect128i_setr_def lane32_setr)
  have b: "Vect128i_index (Vect128i_set1 0) 3 = Some 0"
    by (simp add: Vect128i_index_lane Vect128i_set1_def mm_set1_epi32_def lane32_setr)
  have fa: "Vect128f_index (Vect128f_setr 0 0x3F800000 0xBF800000 0x4F000000) 3 = Some 0x4F000000"
    by (simp add: Vect128f_index_lane Vect128f_setr_def mm_setr_ps_def lane32_setr)
  have fb: "Vect128f_index (Vect128f_setr 0 0 0 0x3F800000) 3 = Some 0x3F800000"
    by (simp add: Vect128f_index_lane Vect128f_setr_def mm_setr_ps_def lane32_setr)
  note t = mask_encoding [OF k a b fa fb]
  have s: "sint (0 :: 32 word) < sint (2147483647 :: 32 word)"
    "\<not> sint (2147483647 :: 32 word) < sint (0 :: 32 word)"
    by simp_all
  from t [THEN conjunct1] s
  have lt: "Vect128i_index (Vect128i_lt (Vect128i_setr 0 1 (- 1) 2147483647) (Vect128i_set1 0)) 3
     = Some 0"
    by (simp only: if_False)
  from t [THEN conjunct2, THEN conjunct1] s
  have gt: "Vect128i_index (Vect128i_gt (Vect128i_setr 0 1 (- 1) 2147483647) (Vect128i_set1 0)) 3
     = Some (- 1)"
    by (simp only: if_True)
  from k a b fa fb lt gt show ?thesis by blast
qed

text \<open>
  C2.  The specification states that \<open>~v\<close> on a float vector flips every bit of every lane.  The code
  builds its mask with \<open>Vect128f(0xFFFFFFFF)\<close>, the constructor from one \<open>float\<close>, so the
  literal is converted to the float \<open>4294967296.0\<close>, the pattern \<open>0x4F800000\<close>.  With every
  lane \<open>1.0\<close> (\<open>0x3F800000\<close>) the result lanes are \<open>0x70000000\<close>, while the complement of
  \<open>0x3F800000\<close> is \<open>0xC07FFFFF\<close>.
\<close>

theorem float_not_is_not_complement:
  "float_of_uint32 0xFFFFFFFF = 0x4F800000 \<and>
   Vect128f_storeu (Vect128f_not (Vect128f_set1 0x3F800000))
     = [0x70000000, 0x70000000, 0x70000000, 0x70000000] \<and>
   NOT (0x3F800000 :: 32 word) = 0xC07FFFFF"
  by (simp add: float_of_uint32_max Vect128f_storeu_def mm_storeu_ps_def Vect128f_not_lane
      Vect128f_set1_def mm_set1_ps_def mm_setr_ps_def lane32_setr)

text \<open>
  C5.  On float vectors \<open><=\<close> is true in a lane exactly when the left lane is not greater
  than the right one, and \<open>>=\<close> exactly when it is not less.  With a NaN operand both are
  true although the ordered comparisons \<open>fp_le\<close> and \<open>fp_ge\<close> are false; without a NaN
  operand they agree with the ordered comparisons.
\<close>

theorem le_ge_hardware_semantics:
  "k < 4 \<Longrightarrow> Vect128f_index a k = Some x \<Longrightarrow> Vect128f_index b k = Some y \<Longrightarrow>
   Vect128f_index (Vect128f_le a b) k = Some (if \<not> fp_gt x y then 0xFFFFFFFF else 0) \<and>
   Vect128f_index (Vect128f_ge a b) k = Some (if \<not> fp_lt x y then 0xFFFFFFFF else 0) \<and>
   (is_nan x \<or> is_nan y \<longrightarrow>
      Vect128f_index (Vect128f_le a b) k = Some 0xFFFFFFFF \<and> \<not> fp_le x y \<and>
      Vect128f_index (Vect128f_ge a b) k = Some 0xFFFFFFFF \<and> \<not> fp_ge x y) \<and>
   (\<not> is_nan x \<and> \<not> is_nan y \<longrightarrow> (\<not> fp_gt x y) = fp_le x y \<and> (\<not> fp_lt x y) = fp_ge x y)"
proof -
  assume k: "k < 4" and "Vect128f_index a k = Some x" "Vect128f_index b k = Some y"
  then have l: "lane32 (fval a) k = x" "lane32 (fval b) k = y"
    by (simp_all add: Vect128f_index_lane)
  have le: "Vect128f_index (Vect128f_le a b) k = Some (if \<not> fp_gt x y then 0xFFFFFFFF else 0)"
    using k l by (simp only: Vect128f_index_lane Vect128f_cmp_lanes mask_of_def)
  have ge: "Vect128f_index (Vect128f_ge a b) k = Some (if \<not> fp_lt x y then 0xFFFFFFFF else 0)"
    using k l by (simp only: Vect128f_index_lane Vect128f_cmp_lanes mask_of_def)
  have nan: "is_nan x \<or> is_nan y \<longrightarrow>
      Vect128f_index (Vect128f_le a b) k = Some 0xFFFFFFFF \<and> \<not> fp_le x y \<and>
      Vect128f_index (Vect128f_ge a b) k = Some 0xFFFFFFFF \<and> \<not> fp_ge x y"
  proof
    assume n: "is_nan x \<or> is_nan y"
    then have "\<not> fp_gt x y" "\<not> fp_lt x y" "\<not> fp_eq x y"
      by (rule fp_gt_nan, rule fp_lt_nan, rule fp_eq_nan)
    then show "Vect128f_index (Vect128f_le a b) k = Some 0xFFFFFFFF \<and> \<not> fp_le x y \<and>
      Vect128f_index (Vect128f_ge a b) k = Some 0xFFFFFFFF \<and> \<not> fp_ge x y"
      using le ge by (simp add: fp_le_def fp_ge_def)
  qed
  have ord: "\<not> is_nan x \<and> \<not> is_nan y \<longrightarrow>
      (\<not> fp_gt x y) = fp_le x y \<and> (\<not> fp_lt x y) = fp_ge x y"
    using fp_not_gt_iff_le [of x y] fp_not_lt_iff_ge [of x y] by blast
  from le ge nan ord show ?thesis by (intro conjI)
qed

theorem le_ge_hardware_semantics_witness:
  "(0::nat) < 4 \<and>
   Vect128f_index (Vect128f_setr 0x7FC00000 0 0 0) 0 = Some 0x7FC00000 \<and>
   Vect128f_index (Vect128f_set1 0x3F800000) 0 = Some 0x3F800000 \<and>
   is_nan 0x7FC00000 \<and>
   Vect128f_index (Vect128f_le (Vect128f_setr 0x7FC00000 0 0 0) (Vect128f_set1 0x3F800000)) 0
     = Some 0xFFFFFFFF \<and>
   \<not> fp_le 0x7FC00000 0x3F800000 \<and>
   Vect128f_index (Vect128f_ge (Vect128f_setr 0x7FC00000 0 0 0) (Vect128f_set1 0x3F800000)) 0
     = Some 0xFFFFFFFF \<and>
   \<not> fp_ge 0x7FC00000 0x3F800000"
proof -
  have a: "Vect128f_index (Vect128f_setr 0x7FC00000 0 0 0) 0 = Some 0x7FC00000"
    by (simp add: Vect128f_index_lane Vect128f_setr_def mm_setr_ps_def lane32_setr)
  have b: "Vect128f_index (Vect128f_set1 0x3F800000) 0 = Some 0x3F800000"
    by (simp add: Vect128f_index_lane Vect128f_set1_def mm_set1_ps_def mm_setr_ps_def lane32_setr)
  have k: "(0::nat) < 4" by simp
  have nan: "is_nan 0x7FC00000 \<or> is_nan 0x3F800000"
    using is_nan_qnan by (rule disjI1)
  note t = le_ge_hardware_semantics [OF k a b]
  note c = t [THEN conjunct2, THEN conjunct2, THEN conjunct1, THEN mp, OF nan]
  from k a b is_nan_qnan c show ?thesis by blast
qed

text \<open>
  C6.  Without \<open>HAVE_SSE41\<close> the product is assembled from two \<open>_mm_mul_epu32\<close> and a
  shuffle.  The resulting vector is the one \<open>_mm_mullo_epi32\<close> gives, and each of its lanes
  holds the low 32 bits of the signed 64-bit product of the two lanes.
\<close>

theorem mul_fallback_matches_native:
  "k < 4 \<Longrightarrow> Vect128i_index a k = Some x \<Longrightarrow> Vect128i_index v k = Some y \<Longrightarrow>
   Vect128i_mul False a v = Vect128i_mul True a v \<and>
   Vect128i_index (Vect128i_mul False a v) k = Some (ucast ((scast x :: 64 word) * scast y)) \<and>
   Vect128i_index (Vect128i_mul True a v) k = Some (ucast ((scast x :: 64 word) * scast y))"
proof -
  assume k: "k < 4" and x: "Vect128i_index a k = Some x" and y: "Vect128i_index v k = Some y"
  have eq: "Vect128i_mul False a v = Vect128i_mul True a v"
    by (rule Vect128i.expand) (simp only: mul_fallback_lanes mul_native_lanes)
  from k x y have xy: "lane32 (ival a) k = x" "lane32 (ival v) k = y"
    by (simp_all add: Vect128i_index_lane)
  from k have "lane32 (ival (Vect128i_mul True a v)) k = x * y"
    using xy lt4_cases [of k] by (auto simp add: mul_native_lanes lane32_setr)
  with k have "Vect128i_index (Vect128i_mul True a v) k = Some (ucast ((scast x :: 64 word) * scast y))"
    by (simp add: Vect128i_index_lane scast_mul_down)
  with eq show ?thesis by simp
qed

theorem mul_fallback_matches_native_witness:
  "(0::nat) < 4 \<and>
   Vect128i_index (Vect128i_setr 65536 (- 2) 3 2147483647) 0 = Some 65536 \<and>
   Vect128i_index (Vect128i_setr 65537 3 (- 4) 2) 0 = Some 65537 \<and>
   Vect128i_index (Vect128i_mul False (Vect128i_setr 65536 (- 2) 3 2147483647)
                                        (Vect128i_setr 65537 3 (- 4) 2)) 0 = Some 65536"
proof -
  have a: "Vect128i_index (Vect128i_setr 65536 (- 2) 3 2147483647) 0 = Some 65536"
    by (simp add: Vect128i_index_lane Vect128i_setr_def lane32_setr)
  have v: "Vect128i_index (Vect128i_setr 65537 3 (- 4) 2) 0 = Some 65537"
    by (simp add: Vect128i_index_lane Vect128i_setr_def lane32_setr)
  have "(ucast ((scast (65536 :: 32 word) :: 64 word) * scast (65537 :: 32 word)) :: 32 word) = 65536"
    by simp
  with mul_fallback_matches_native [OF _ a v] a v show ?thesis by simp
qed

text \<open>
  C7.  \<open>operator+\<close> adds lane by lane modulo \<open>2^32\<close>: the lane read back is the wrapped
  sum, in the unsigned and in the two's complement reading, and is always defined.  The
  lanes \<open>(0, -1, 1, 2147483647)\<close> plus \<open>(1, 1, 1, 1)\<close> give \<open>(1, 0, 2, -2147483648)\<close>.
\<close>

theorem add_wraps:
  "k < 4 \<Longrightarrow> Vect128i_index a k = Some x \<Longrightarrow> Vect128i_index v k = Some y \<Longrightarrow>
   Vect128i_index (Vect128i_add a v) k = Some (x + y) \<and>
   uint (x + y) = (uint x + uint y) mod 2 ^ 32 \<and>
   sint (x + y) = signed_take_bit 31 (sint x + sint y) \<and>
   Vect128i_storeu (Vect128i_add (Vect128i_setr 0 (- 1) 1 2147483647) (Vect128i_setr 1 1 1 1))
     = [1, 0, 2, - 2147483648]"
  by (simp add: Vect128i_index_lane Vect128i_add_def mm_add_epi32_def lane32_lanewise
      uint_word_ariths sint_word_ariths add_example [unfolded Vect128i_add_def mm_add_epi32_def])

theorem add_wraps_witness:
  "(3::nat) < 4 \<and>
   Vect128i_index (Vect128i_setr 0 (- 1) 1 2147483647) 3 = Some 2147483647 \<and>
   Vect128i_index (Vect128i_setr 1 1 1 1) 3 = Some 1 \<and>
   Vect128i_index (Vect128i_add (Vect128i_setr 0 (- 1) 1 2147483647) (Vect128i_setr 1 1 1 1)) 3
     = Some (- 2147483648) \<and>
   sint (- 2147483648 :: 32 word) = - 2147483648"
proof -
  have k: "(3::nat) < 4" by simp
  have a: "Vect128i_index (Vect128i_setr 0 (- 1) 1 2147483647) 3 = Some 2147483647"
    by (simp add: Vect128i_index_lane Vect128i_setr_def lane32_setr)
  have v: "Vect128i_index (Vect128i_setr 1 1 1 1) 3 = Some 1"
    by (simp add: Vect128i_index_lane Vect128i_setr_def lane32_setr)
  have s: "(2147483647 :: 32 word) + 1 = - 2147483648" by simp
  have m: "sint (- 2147483648 :: 32 word) = - 2147483648" by simp
  from add_wraps [OF k a v, THEN conjunct1] s
  have "Vect128i_index (Vect128i_add (Vect128i_setr 0 (- 1) 1 2147483647)
          (Vect128i_setr 1 1 1 1)) 3 = Some (- 2147483648)"
    by (simp only:)
  with k a v m show ?thesis by blast
qed

text \<open>
  C9.  The specification states that applying \<open>~\<close> twice to a float vector does not give the
  original back, seen as an unequal comparison for a representative non-zero value.  The
  operator is an exclusive or with a fixed mask, so applying it twice gives back every
  bit.  For the value of the test, \<open>1.203\<close> (\<open>0x3F99FBE7\<close>) in every lane, \<open>!=\<close> is false and
  \<open>==\<close> is true in every lane.
\<close>

theorem float_not_twice_counterexample:
  "\<not> (\<exists>v. Vect128f_not (Vect128f_not v) \<noteq> v) \<and>
   Vect128f_storeu (Vect128f_ne (Vect128f_not (Vect128f_not (Vect128f_set1 0x3F99FBE7)))
                                (Vect128f_set1 0x3F99FBE7)) = [0, 0, 0, 0] \<and>
   Vect128f_storeu (Vect128f_eq (Vect128f_not (Vect128f_not (Vect128f_set1 0x3F99FBE7)))
                                (Vect128f_set1 0x3F99FBE7))
     = [0xFFFFFFFF, 0xFFFFFFFF, 0xFFFFFFFF, 0xFFFFFFFF]"
  by (simp add: Vect128f_not_not Vect128f_storeu_def mm_storeu_ps_def Vect128f_cmp_lanes
      set1_1203_lanes mask_of_def fp_eq_refl_iff not_nan_1203)

text \<open>
  C9, as amended.  Applying \<open>~\<close> twice gives back the vector bit for bit; the result
  compares unequal to the original exactly in the lanes that hold a NaN, and equal in all
  other lanes.
\<close>

theorem float_not_twice_is_identity:
  "k < 4 \<Longrightarrow> Vect128f_index v k = Some x \<Longrightarrow>
   Vect128f_not (Vect128f_not v) = v \<and>
   Vect128f_index (Vect128f_not (Vect128f_not v)) k = Some x \<and>
   Vect128f_index (Vect128f_ne (Vect128f_not (Vect128f_not v)) v) k
     = Some (if is_nan x then 0xFFFFFFFF else 0) \<and>
   Vect128f_index (Vect128f_eq (Vect128f_not (Vect128f_not v)) v) k
     = Some (if is_nan x then 0 else 0xFFFFFFFF)"
proof -
  assume k: "k < 4" and x: "Vect128f_index v k = Some x"
  then have l: "lane32 (fval v) k = x" by (simp add: Vect128f_index_lane)
  have "Vect128f_index (Vect128f_ne v v) k = Some (if is_nan x then 0xFFFFFFFF else 0)"
    using k l by (simp add: Vect128f_index_lane Vect128f_cmp_lanes mask_of_def fp_eq_refl_iff)
  moreover have "Vect128f_index (Vect128f_eq v v) k = Some (if is_nan x then 0 else 0xFFFFFFFF)"
    using k l by (simp add: Vect128f_index_lane Vect128f_cmp_lanes mask_of_def fp_eq_refl_iff)
  ultimately show ?thesis using x by (simp add: Vect128f_not_not)
qed

theorem float_not_twice_is_identity_witness:
  "(0::nat) < 4 \<and> Vect128f_index (Vect128f_set1 0x3F99FBE7) 0 = Some 0x3F99FBE7 \<and>
   Vect128f_index (Vect128f_eq (Vect128f_not (Vect128f_not (Vect128f_set1 0x3F99FBE7)))
                               (Vect128f_set1 0x3F99FBE7)) 0 = Some 0xFFFFFFFF"
proof -
  have a: "Vect128f_index (Vect128f_set1 0x3F99FBE7) 0 = Some 0x3F99FBE7"
    by (simp add: Vect128f_index_lane Vect128f_set1_def mm_set1_ps_def mm_setr_ps_def lane32_setr)
  have k: "(0::nat) < 4" by simp
  note t = float_not_twice_is_identity [OF k a]
  note c = t [THEN conjunct2, THEN conjunct2, THEN conjunct2]
  from c not_nan_1203
  have "Vect128f_index (Vect128f_eq (Vect128f_not (Vect128f_not (Vect128f_set1 0x3F99FBE7)))
                               (Vect128f_set1 0x3F99FBE7)) 0 = Some 0xFFFFFFFF"
    by (simp only: if_False)
  with k a show ?thesis by blast
qed

text \<open>
  C10.  A vector built from four values has them in argument order: \<open>operator[]\<close> at
  \<open>k\<close> reads the argument at position \<open>k\<close>, counted from 0, for both vector types.
\<close>

theorem lane_order:
  "k < 4 \<Longrightarrow>
   Vect128i_index (Vect128i_setr i0 i1 i2 i3) k = Some ([i0, i1, i2, i3] ! k) \<and>
   Vect128f_index (Vect128f_setr f0 f1 f2 f3) k = Some ([f0, f1, f2, f3] ! k)"
  by (simp add: Vect128i_index_lane Vect128f_index_lane Vect128i_setr_def Vect128f_setr_def
      mm_setr_ps_def lane32_setr_nth)

theorem lane_order_witness:
  "(3::nat) < 4 \<and>
   Vect128i_index (Vect128i_setr 10 11 12 13) 3 = Some 13 \<and>
   Vect128f_index (Vect128f_setr 0 0x3DCCCCCD 0x3F800000 0x40000000) 3 = Some 0x40000000"
  using lane_order [of 3 10 11 12 13 0 "0x3DCCCCCD" "0x3F800000" "0x40000000"] by simp

section \<open>Properties of AlignedStorage\<close>

lemma unat_Align:
  "0 < Align \<Longrightarrow> Align < 2 ^ 31 \<Longrightarrow> unat (word_of_int Align :: 64 word) = nat Align"
  by (simp add: unat_eq_nat_uint uint_word_of_int)

lemma aligned_unat:
  assumes "0 < Align" "Align < 2 ^ 31" "unat p + nat Align < 2 ^ 64"
  shows "unat ((p :: 64 word) + (word_of_int Align - (p mod word_of_int Align)))
           = unat p + (nat Align - unat p mod nat Align)"
proof -
  let ?A = "word_of_int Align :: 64 word"
  have A: "unat ?A = nat Align" using assms by (simp add: unat_Align)
  have Apos: "0 < nat Align" using assms by simp
  have m: "unat (p mod ?A) = unat p mod nat Align"
    by (simp add: unat_mod A)
  have lt: "unat p mod nat Align < nat Align" using Apos by simp
  have le: "p mod ?A \<le> ?A"
    using m A lt by (simp add: word_le_nat_alt)
  have d: "unat (?A - (p mod ?A)) = nat Align - unat p mod nat Align"
    using le by (simp add: unat_sub m A)
  have "unat p + unat (?A - (p mod ?A)) < 2 ^ 64"
    using d assms(3) by simp
  then have "unat (p + (?A - (p mod ?A))) = unat p + unat (?A - (p mod ?A))"
    by (simp add: unat_add_lem [THEN iffD1])
  with d show ?thesis by simp
qed

lemma round_up_mod:
  fixes P A :: nat
  assumes "0 < A"
  shows "(P + (A - P mod A)) mod A = 0"
proof -
  have "P mod A < A" using assms by simp
  then have "P + (A - P mod A) = (P - P mod A) + A"
    using mod_less_eq_dividend [of P A] by simp
  also have "\<dots> = (P div A) * A + A"
    by (simp add: minus_mod_eq_div_mult)
  finally show ?thesis by simp
qed

lemma below_round_up_mod:
  fixes P A d :: nat
  assumes "0 < d" "d < A - P mod A"
  shows "(P + d) mod A \<noteq> 0"
proof -
  have "(P + d) mod A = (P mod A + d) mod A"
    by (simp add: mod_add_left_eq)
  also have "\<dots> = P mod A + d" using assms by simp
  finally show ?thesis using assms by simp
qed

lemma AlignedStorage_new_fields:
  "length_elems (AlignedStorage_new malloc sizeofT Align len) = len"
  "raw_val (AlignedStorage_new malloc sizeofT Align len) = malloc (alloc_bytes sizeofT Align len)"
  "aligned (AlignedStorage_new malloc sizeofT Align len) =
     malloc (alloc_bytes sizeofT Align len)
       + (word_of_int Align - (malloc (alloc_bytes sizeofT Align len) mod word_of_int Align))"
  by (simp_all add: AlignedStorage_new_def Let_def)

lemma unat_alloc_bytes:
  assumes "0 < Align" "Align < 2 ^ 31" "unat len * sizeofT + nat Align < 2 ^ 64"
  shows "unat (alloc_bytes sizeofT Align len) = unat len * sizeofT + nat Align"
proof -
  have "unat (len * of_nat sizeofT :: 64 word) = (unat len * (sizeofT mod 2 ^ 64)) mod 2 ^ 64"
    by (simp add: unat_word_ariths unat_of_nat)
  also have "\<dots> = (unat len * sizeofT) mod 2 ^ 64"
    by (simp add: mod_mult_right_eq)
  also have "\<dots> = unat len * sizeofT"
    using assms(3) by simp
  finally have m: "unat (len * of_nat sizeofT :: 64 word) = unat len * sizeofT" .
  have "unat (len * of_nat sizeofT :: 64 word) + unat (word_of_int Align :: 64 word) < 2 ^ 64"
    using m assms by (simp add: unat_Align)
  then have "unat (len * of_nat sizeofT + word_of_int Align :: 64 word)
      = unat (len * of_nat sizeofT :: 64 word) + unat (word_of_int Align :: 64 word)"
    by (simp add: unat_add_lem [THEN iffD1])
  then show ?thesis using m assms by (simp add: alloc_bytes_def unat_Align)
qed

lemma uint_scast_nonneg:
  "0 \<le> sint (i :: 32 word) \<Longrightarrow> uint (scast i :: 64 word) = sint i"
proof -
  assume nn: "0 \<le> sint i"
  have "sint i < 2 ^ 31" using sint_lt [of i] by simp
  then have "sint i < 2 ^ 64" by (rule less_trans) simp
  then have "sint i mod 2 ^ 64 = sint i" using nn by simp
  moreover have "uint (scast i :: 64 word) = sint i mod 2 ^ LENGTH(64)"
    by (simp only: scast_eq uint_word_of_int)
  ultimately show ?thesis by simp
qed

text \<open>
  C3.  The specification states that the aligned pointer is \<open>p + d\<close> for the smallest \<open>d\<close> with
  \<open>0 \<le> d < Align\<close> that makes \<open>p + d\<close> a multiple of \<open>Align\<close>, so that an aligned \<open>p\<close> is kept.
  The constructor adds \<open>Align - p % Align\<close>.  For \<open>p = 4096\<close> and \<open>Align = 16\<close> the raw pointer
  is a multiple of 16 and the aligned pointer is 4112, not 4096: no \<open>d < 16\<close> gives it.
\<close>

theorem aligned_offset_counterexample:
  "raw_val (AlignedStorage_new (\<lambda>n. 4096) 4 16 256) = 4096 \<and>
   unat (4096 :: 64 word) mod 16 = 0 \<and>
   aligned (AlignedStorage_new (\<lambda>n. 4096) 4 16 256) = 4112 \<and>
   \<not> (\<exists>d::nat. d < 16 \<and>
        unat (aligned (AlignedStorage_new (\<lambda>n. 4096) 4 16 256)) = 4096 + d)"
  by (simp add: AlignedStorage_new_fields)

text \<open>
  C3, as amended.  For a positive \<open>Align\<close> and a raw pointer \<open>p\<close> with \<open>p + Align\<close> inside the
  address space, the aligned pointer is \<open>p + d\<close> with \<open>d = Align - p % Align\<close>: \<open>d\<close> is the
  smallest strictly positive offset that makes \<open>p + d\<close> a multiple of \<open>Align\<close>,
  \<open>0 < d \<le> Align\<close>, and when \<open>p\<close> is already a multiple the aligned pointer is \<open>p + Align\<close>.
\<close>

theorem aligned_offset:
  assumes "0 < Align" and "Align < 2 ^ 31"
    and "malloc (alloc_bytes sizeofT Align len) = p"
    and "unat p + nat Align < 2 ^ 64"
  shows "unat (aligned (AlignedStorage_new malloc sizeofT Align len))
           = unat p + (nat Align - unat p mod nat Align) \<and>
         0 < nat Align - unat p mod nat Align \<and>
         nat Align - unat p mod nat Align \<le> nat Align \<and>
         (unat p + (nat Align - unat p mod nat Align)) mod nat Align = 0 \<and>
         (\<forall>d. 0 < d \<and> d < nat Align - unat p mod nat Align \<longrightarrow> (unat p + d) mod nat Align \<noteq> 0) \<and>
         (unat p mod nat Align = 0 \<longrightarrow>
            unat (aligned (AlignedStorage_new malloc sizeofT Align len)) = unat p + nat Align)"
proof -
  have Apos: "0 < nat Align" using assms(1) by simp
  have a: "unat (aligned (AlignedStorage_new malloc sizeofT Align len))
           = unat p + (nat Align - unat p mod nat Align)"
    using assms by (simp add: AlignedStorage_new_fields aligned_unat)
  have lt: "unat p mod nat Align < nat Align" using Apos by simp
  then have b: "0 < nat Align - unat p mod nat Align" by simp
  have c: "nat Align - unat p mod nat Align \<le> nat Align" by simp
  have d: "(unat p + (nat Align - unat p mod nat Align)) mod nat Align = 0"
    using Apos by (rule round_up_mod)
  have e: "\<forall>d. 0 < d \<and> d < nat Align - unat p mod nat Align \<longrightarrow> (unat p + d) mod nat Align \<noteq> 0"
    using below_round_up_mod by blast
  have f: "unat p mod nat Align = 0 \<longrightarrow>
            unat (aligned (AlignedStorage_new malloc sizeofT Align len)) = unat p + nat Align"
    using a by simp
  from a b c d e f show ?thesis by (intro conjI)
qed

theorem aligned_offset_witness:
  "(0::int) < 16 \<and> (16::int) < 2 ^ 31 \<and> (\<lambda>n. 4100 :: 64 word) (alloc_bytes 4 16 256) = 4100 \<and>
   unat (4100 :: 64 word) + nat 16 < 2 ^ 64 \<and>
   unat (aligned (AlignedStorage_new (\<lambda>n. 4100) 4 16 256)) = 4112"
proof -
  have h: "(0::int) < 16" "(16::int) < 2 ^ 31"
    "(\<lambda>n. 4100 :: 64 word) (alloc_bytes 4 16 256) = 4100"
    "unat (4100 :: 64 word) + nat 16 < 2 ^ 64"
    by simp_all
  note t = aligned_offset [OF h, THEN conjunct1]
  have "unat (4100 :: 64 word) + (nat 16 - unat (4100 :: 64 word) mod nat 16) = 4112"
    by simp
  with t have "unat (aligned (AlignedStorage_new (\<lambda>n. 4100) 4 16 256)) = 4112"
    by (simp only:)
  with h show ?thesis by blast
qed

text \<open>
  C4.  The specification states that for every length the exposed pointer is a multiple of \<open>Align\<close>
  and has room for \<open>length\<close> elements inside the allocation.  The byte count
  \<open>length * sizeof(T) + Align\<close> is computed in \<open>size_t\<close>.  For \<open>length = 2^62\<close>, a 4-byte
  element and \<open>Align = 16\<close> it wraps to 16; with the block at 4096 the exposed pointer is 4112,
  the end of the block, and \<open>2^62\<close> elements do not fit after it.
\<close>

theorem aligned_pointer_invariant_counterexample:
  "alloc_bytes 4 16 (2 ^ 62) = 16 \<and>
   raw_val (AlignedStorage_new (\<lambda>n. 4096) 4 16 (2 ^ 62)) = 4096 \<and>
   AlignedStorage_ptr (AlignedStorage_new (\<lambda>n. 4096) 4 16 (2 ^ 62)) = 4112 \<and>
   \<not> (unat (AlignedStorage_ptr (AlignedStorage_new (\<lambda>n. 4096) 4 16 (2 ^ 62)))
         + unat (2 ^ 62 :: 64 word) * 4
       \<le> unat (4096 :: 64 word) + unat (alloc_bytes 4 16 (2 ^ 62)))"
  by (simp add: AlignedStorage_new_fields AlignedStorage_ptr_def alloc_bytes_def)

text \<open>
  C4, as amended.  For a positive \<open>Align\<close> and every length, the exposed pointer is a
  multiple of \<open>Align\<close> as long as \<open>p + Align\<close> stays inside the address space.  When
  moreover the byte count \<open>length * sizeof(T) + Align\<close> does not wrap in \<open>size_t\<close> and the
  allocator returns a non-null block of that many bytes that ends inside the address
  space, the pointer lies after the start of the block and the \<open>length\<close> elements after it
  end inside the block.
\<close>

theorem aligned_pointer_invariant:
  assumes "0 < Align" and "Align < 2 ^ 31"
    and "malloc (alloc_bytes sizeofT Align len) = p"
  shows "(unat p + nat Align < 2 ^ 64 \<longrightarrow>
            unat (AlignedStorage_ptr (AlignedStorage_new malloc sizeofT Align len)) mod nat Align = 0) \<and>
         (unat len * sizeofT + nat Align < 2 ^ 64 \<and> p \<noteq> 0 \<and>
          unat p + unat (alloc_bytes sizeofT Align len) < 2 ^ 64 \<longrightarrow>
            unat (alloc_bytes sizeofT Align len) = unat len * sizeofT + nat Align \<and>
            unat (AlignedStorage_ptr (AlignedStorage_new malloc sizeofT Align len)) mod nat Align = 0 \<and>
            unat p < unat (AlignedStorage_ptr (AlignedStorage_new malloc sizeofT Align len)) \<and>
            unat (AlignedStorage_ptr (AlignedStorage_new malloc sizeofT Align len))
              + unat len * sizeofT
              \<le> unat p + unat (alloc_bytes sizeofT Align len))"
proof -
  let ?ptr = "AlignedStorage_ptr (AlignedStorage_new malloc sizeofT Align len)"
  have Apos: "0 < nat Align" using assms(1) by simp
  have lt: "unat p mod nat Align < nat Align" using Apos by simp
  have a: "unat ?ptr = unat p + (nat Align - unat p mod nat Align)"
    if "unat p + nat Align < 2 ^ 64"
    using assms that by (simp add: AlignedStorage_ptr_def AlignedStorage_new_fields aligned_unat)
  have m: "unat ?ptr mod nat Align = 0" if "unat p + nat Align < 2 ^ 64"
    using a [OF that] Apos by (simp only: round_up_mod)
  have r: "unat (alloc_bytes sizeofT Align len) = unat len * sizeofT + nat Align \<and>
           unat ?ptr mod nat Align = 0 \<and> unat p < unat ?ptr \<and>
           unat ?ptr + unat len * sizeofT \<le> unat p + unat (alloc_bytes sizeofT Align len)"
    if no: "unat len * sizeofT + nat Align < 2 ^ 64"
      and blk: "unat p + unat (alloc_bytes sizeofT Align len) < 2 ^ 64"
  proof -
    have n: "unat (alloc_bytes sizeofT Align len) = unat len * sizeofT + nat Align"
      using assms(1,2) no by (rule unat_alloc_bytes)
    then have fit: "unat p + nat Align < 2 ^ 64" using blk by simp
    have lo: "unat p < unat ?ptr" using a [OF fit] lt by simp
    have hi: "unat ?ptr + unat len * sizeofT \<le> unat p + unat (alloc_bytes sizeofT Align len)"
      using a [OF fit] n by simp
    from n m [OF fit] lo hi show ?thesis by (intro conjI)
  qed
  from m r show ?thesis by blast
qed

theorem aligned_pointer_invariant_witness:
  "(0::int) < 17 \<and> (17::int) < 2 ^ 31 \<and>
   (\<lambda>n. 4096 :: 64 word) (alloc_bytes 8 17 256) = 4096 \<and>
   unat (256 :: 64 word) * 8 + nat 17 < 2 ^ 64 \<and> (4096 :: 64 word) \<noteq> 0 \<and>
   unat (4096 :: 64 word) + unat (alloc_bytes 8 17 256) < 2 ^ 64 \<and>
   unat (alloc_bytes 8 17 256) = unat (256 :: 64 word) * 8 + nat 17 \<and>
   unat (AlignedStorage_ptr (AlignedStorage_new (\<lambda>n. 4096) 8 17 256)) mod nat 17 = 0 \<and>
   unat (4096 :: 64 word) < unat (AlignedStorage_ptr (AlignedStorage_new (\<lambda>n. 4096) 8 17 256)) \<and>
   unat (AlignedStorage_ptr (AlignedStorage_new (\<lambda>n. 4096) 8 17 256)) + unat (256 :: 64 word) * 8
     \<le> unat (4096 :: 64 word) + unat (alloc_bytes 8 17 256)"
proof -
  have h: "(0::int) < 17" "(17::int) < 2 ^ 31"
    "(\<lambda>n. 4096 :: 64 word) (alloc_bytes 8 17 256) = 4096"
    by simp_all
  have g: "unat (256 :: 64 word) * 8 + nat 17 < 2 ^ 64 \<and> (4096 :: 64 word) \<noteq> 0 \<and>
    unat (4096 :: 64 word) + unat (alloc_bytes 8 17 256) < 2 ^ 64"
    by (simp add: alloc_bytes_def)
  note t = aligned_pointer_invariant [OF h, THEN conjunct2, THEN mp, OF g]
  from h g t show ?thesis by blast
qed

text \<open>
  C8.  \<open>at(i)\<close> fails with \<open>out_of_range\<close> exactly when \<open>i < 0\<close> or \<open>i \<ge> length\<close>, read as
  integers; otherwise it yields the element that \<open>operator[]\<close> refers to.  In both cases
  the storage is left as it was.  It is the one operation of the storage whose result
  can be an error: the others above are total functions into addresses.
\<close>

theorem at_bounds_check:
  "(\<exists>e. fst (AlignedStorage_at sizeofT s i) = Inl e)
     = (sint i < 0 \<or> uint (length_elems s) \<le> sint i) \<and>
   (sint i < 0 \<or> uint (length_elems s) \<le> sint i \<longrightarrow>
      fst (AlignedStorage_at sizeofT s i)
        = Inl (out_of_range ''outside of aligned storage boundary'')) \<and>
   (0 \<le> sint i \<and> sint i < uint (length_elems s) \<longrightarrow>
      fst (AlignedStorage_at sizeofT s i) = Inr (AlignedStorage_index sizeofT s i)) \<and>
   snd (AlignedStorage_at sizeofT s i) = s"
proof -
  have c: "(i <s 0 \<or> length_elems s \<le> scast i)
             = (sint i < 0 \<or> uint (length_elems s) \<le> sint i)"
  proof (cases "sint i < 0")
    case True
    then show ?thesis by (simp add: word_sless_alt)
  next
    case False
    then have "uint (scast i :: 64 word) = sint i" by (simp add: uint_scast_nonneg)
    with False show ?thesis by (simp add: word_sless_alt word_le_def)
  qed
  show ?thesis
    unfolding AlignedStorage_at_def AlignedStorage_index_def c by auto
qed

theorem at_bounds_check_witness:
  "fst (AlignedStorage_at 4 (AlignedStorage_new (\<lambda>n. 4096) 4 16 4) 4)
     = Inl (out_of_range ''outside of aligned storage boundary'') \<and>
   fst (AlignedStorage_at 4 (AlignedStorage_new (\<lambda>n. 4096) 4 16 4) (- 1))
     = Inl (out_of_range ''outside of aligned storage boundary'') \<and>
   fst (AlignedStorage_at 4 (AlignedStorage_new (\<lambda>n. 4096) 4 16 4) 3) = Inr 4124"
proof -
  let ?s = "AlignedStorage_new (\<lambda>n. 4096) 4 16 4"
  have l: "uint (length_elems ?s) = 4" by (simp add: AlignedStorage_new_fields)
  have i: "AlignedStorage_index 4 ?s 3 = 4124"
    by (simp add: AlignedStorage_index_def AlignedStorage_new_fields)
  have a: "sint (4 :: 32 word) < 0 \<or> uint (length_elems ?s) \<le> sint (4 :: 32 word)"
    using l by simp
  have b: "sint (- 1 :: 32 word) < 0 \<or> uint (length_elems ?s) \<le> sint (- 1 :: 32 word)"
    by simp
  have c: "0 \<le> sint (3 :: 32 word) \<and> sint (3 :: 32 word) < uint (length_elems ?s)"
    using l by simp
  note t1 = at_bounds_check [of 4 ?s 4, THEN conjunct2, THEN conjunct1, THEN mp, OF a]
  note t2 = at_bounds_check [of 4 ?s "- 1", THEN conjunct2, THEN conjunct1, THEN mp, OF b]
  note t3 = at_bounds_check [of 4 ?s 3, THEN conjunct2, THEN conjunct2, THEN conjunct1, THEN mp, OF c]
  from t1 t2 t3 i show ?thesis by (simp only:)
qed

end
